theory Spec2Isabelle
  imports Main "HOL-Library.Char_ord" "HOL-Library.List_Lexorder"
begin

section \<open>Strings, errors and time\<close>

text \<open>
  Go strings are byte strings and \<^verbatim>\<open>==\<close>, \<^verbatim>\<open><\<close>, \<^verbatim>\<open>>=\<close> compare them bytewise in
  lexicographic order; \<^typ>\<open>string\<close> with the order of \<^theory_text>\<open>Char_ord\<close> and
  \<^theory_text>\<open>List_Lexorder\<close> is that order.

  \<^verbatim>\<open>strings.EqualFold\<close> compares under Unicode simple case folding. The model folds the
  ASCII letters only. The two constants the code compares against (the VERIFIED customer
  status and the PENDING transfer status) contain neither K nor S, the only ASCII letters
  that a character outside ASCII folds to, so for these comparisons the two agree.
\<close>

definition toLower :: "char \<Rightarrow> char" where
  "toLower c =
     (if CHR ''A'' \<le> c \<and> c \<le> CHR ''Z'' then char_of (of_char c + (32::nat)) else c)"

definition EqualFold :: "string \<Rightarrow> string \<Rightarrow> bool" where
  "EqualFold s t = (map toLower s = map toLower t)"

text \<open>
  Every \<^verbatim>\<open>fmt.Errorf\<close>, the \<^verbatim>\<open>sql.ErrNoRows\<close> sentinel and the nil dereference of a
  \<^verbatim>\<open>*client.Transfer\<close> are values of one type; the arguments are the values printed into
  the message.
\<close>

datatype error =
    EndpointRejected string
      \<comment> \<open>"rejecting transfer between two accounts within %s"\<close>
  | ThirdPartyRejected string string
      \<comment> \<open>"rejecting third-party transfer between FI's we don't represent (source: %s, destination: %s)"\<close>
  | DebitNotAllowed string string
      \<comment> \<open>"source customerID=%s does not support debit with status %s"\<close>
  | BuildFailed string string
      \<comment> \<open>"failed to create file: transferID=%s: %v"\<close>
  | NilPointerDereference
      \<comment> \<open>the panic of reading a field through a nil \<^verbatim>\<open>*client.Transfer\<close>\<close>
  | ErrNoRows
      \<comment> \<open>\<^verbatim>\<open>sql.ErrNoRows\<close>\<close>
  | NotPending string
      \<comment> \<open>"transferID=%s is not in PENDING status"\<close>

text \<open>
  A \<^verbatim>\<open>base.Time\<close> or \<^verbatim>\<open>time.Time\<close> is the number of seconds its wall clock shows since
  1970-01-01 00:00:00: the calendar day is \<open>t div 86400\<close> and the time of day is
  \<open>t mod 86400\<close>.
\<close>

type_synonym Time = int

definition minuteOfDay :: "Time \<Rightarrow> nat" where
  "minuteOfDay t = nat (t mod 86400 div 60)"

definition dayOf :: "Time \<Rightarrow> int" where
  "dayOf t = t div 86400"

definition digit :: "nat \<Rightarrow> char" where
  "digit d = char_of (48 + d)"

text \<open>The text \<^verbatim>\<open>HH:MM\<close> of the \<open>n\<close>-th minute of a day.\<close>

definition hhmm :: "nat \<Rightarrow> string" where
  "hhmm n = [digit (n div 60 div 10), digit (n div 60 mod 10), CHR '':'',
             digit (n mod 60 div 10), digit (n mod 60 mod 10)]"

text \<open>\<^verbatim>\<open>when.Format("15:04")\<close>\<close>

definition Format_1504 :: "Time \<Rightarrow> string" where
  "Format_1504 t = hhmm (minuteOfDay t)"


section \<open>Configuration and transfers\<close>

text \<open>
  The structs of \<^verbatim>\<open>config\<close>, \<^verbatim>\<open>customers\<close>, \<^verbatim>\<open>client\<close> and \<^verbatim>\<open>achx\<close> are declared
  outside the files at hand. The records carry the fields that the modelled functions
  read or write, under the names the code uses for them.
\<close>

record Cutoffs =
  Timezone :: string
  Windows :: "string list"

record FileConfig =
  BalanceEntries :: bool

text \<open>
  Modelled from the spec: the struct \<^verbatim>\<open>config.Gateway\<close>, declared outside the files at hand;
  the spec lists its fields as "gateway {origin, originName, destination, destinationName}".
  \<^verbatim>\<open>Originate\<close> copies it into the options and reads none of its fields.
\<close>

record Gateway =
  Origin :: string
  OriginName :: string
  Destination :: string
  DestinationName :: string

record ODFI =
  RoutingNumber :: string
  Gateway :: Gateway
  FileConfig :: FileConfig
  Cutoffs :: Cutoffs

record Customer =
  CustomerID :: string
  Status :: string

record Account =
  RoutingNumber :: string

text \<open>
  \<^verbatim>\<open>fundflow.Source\<close> and \<^verbatim>\<open>achx.Source\<close> have the same three fields (and so have the two
  \<^verbatim>\<open>Destination\<close> structs), and \<^verbatim>\<open>Originate\<close> copies one into the other field by field:
  one record stands for both.
\<close>

record Source =
  Customer :: Customer
  Account :: Account
  AccountNumber :: string

record Destination =
  Customer :: Customer
  Account :: Account
  AccountNumber :: string

record Amount =
  Currency :: string
  Value :: int

record TransferSource =
  CustomerID :: string
  AccountID :: string

record TransferDestination =
  CustomerID :: string
  AccountID :: string

record ReturnCode =
  Code :: string
  Reason :: string
  Description :: string

record Transfer =
  TransferID :: string
  Amount :: Amount
  Source :: TransferSource
  Destination :: TransferDestination
  Description :: string
  Status :: string
  SameDay :: bool
  ReturnCode :: "ReturnCode option"
  ProcessedAt :: "Time option"
  Created :: Time
  TraceNumbers :: "string list"

record Options =
  ODFIRoutingNumber :: string
  Gateway :: Gateway
  FileConfig :: FileConfig
  CutoffTimezone :: string
  EffectiveEntryDate :: Time
  CompanyIdentification :: string

text \<open>
  Modelled from the spec: the constant \<^verbatim>\<open>customers.CUSTOMERSTATUS_VERIFIED\<close>, declared in the
  customers client; the spec names the status VERIFIED. It is only ever compared with
  \<^const>\<open>EqualFold\<close>.
\<close>

definition CUSTOMERSTATUS_VERIFIED :: string where
  "CUSTOMERSTATUS_VERIFIED = ''VERIFIED''"


section \<open>The first-party fund flow\<close>

text \<open>
  \<^verbatim>\<open>afterCutoffWindows\<close>: both length tests of the source are kept. \<^verbatim>\<open>sort.Strings\<close> sorts
  a copy in ascending bytewise order.
\<close>

definition afterCutoffWindows :: "Cutoffs \<Rightarrow> Time \<Rightarrow> bool" where
  "afterCutoffWindows cfg when =
     (if length (Windows cfg) = 0 then False
      else
        let windows = sort (Windows cfg) in
        if length windows = 0 then False
        else
          let now = Format_1504 when in
          now \<ge> windows ! (length windows - 1))"

text \<open>
  \<^verbatim>\<open>calculateEffectiveEntryDate\<close>. The argument \<open>when\<close> is the value of
  \<^verbatim>\<open>base.NewTime(ss.Now().In(cfg.Cutoffs.Location()))\<close>: the time service, the time zone
  database and \<^verbatim>\<open>base.NewTime\<close> belong to other modules, and so does
  \<^verbatim>\<open>base.Time.AddBankingDay\<close>, which the model takes as the function \<open>AddBankingDay\<close>.
\<close>

definition calculateEffectiveEntryDate ::
  "(Time \<Rightarrow> int \<Rightarrow> Time) \<Rightarrow> ODFI \<Rightarrow> Time \<Rightarrow> bool \<Rightarrow> Time" where
  "calculateEffectiveEntryDate AddBankingDay cfg when sameDay =
     (let afterCutoffs = afterCutoffWindows (Cutoffs cfg) when in
      if afterCutoffs then
        (if sameDay then AddBankingDay when 1 else AddBankingDay when 2)
      else if sameDay then when
      else AddBankingDay when 1)"

text \<open>The strategy; its logger is left out, and its time service is read through \<open>when\<close>.\<close>

record FirstParty =
  cfg :: ODFI

text \<open>
  The options that \<^verbatim>\<open>Originate\<close> hands to \<^verbatim>\<open>achx.ConstructFile\<close>: the struct literal
  followed by the assignment to \<^verbatim>\<open>opts.FileConfig.BalanceEntries\<close>.
\<close>

definition originateOptions ::
  "(Time \<Rightarrow> int \<Rightarrow> Time) \<Rightarrow> Time \<Rightarrow> FirstParty \<Rightarrow> string \<Rightarrow> Transfer \<Rightarrow> Options" where
  "originateOptions AddBankingDay when fp companyID xfer =
     (let opts = \<lparr>ODFIRoutingNumber = ODFI.RoutingNumber (cfg fp),
                  Options.Gateway = ODFI.Gateway (cfg fp),
                  Options.FileConfig = ODFI.FileConfig (cfg fp),
                  CutoffTimezone = Timezone (Cutoffs (cfg fp)),
                  EffectiveEntryDate =
                    calculateEffectiveEntryDate AddBankingDay (cfg fp) when (SameDay xfer),
                  CompanyIdentification = companyID\<rparr>
      in opts\<lparr>Options.FileConfig := (Options.FileConfig opts)
           \<lparr>BalanceEntries :=
              BalanceEntries (ODFI.FileConfig (cfg fp)) \<and> Value (Amount xfer) \<ge> 50\<rparr>\<rparr>)"

text \<open>
  \<^verbatim>\<open>FirstParty.Originate\<close>. \<open>constructFile\<close> stands for \<^verbatim>\<open>achx.ConstructFile\<close>, which
  returns a file or an error message. The transfer is a pointer: \<open>None\<close> is nil, and the
  first read through it (\<^verbatim>\<open>xfer.SameDay\<close>) panics.
\<close>

definition Originate ::
  "(string \<Rightarrow> Options \<Rightarrow> Transfer \<Rightarrow> Source \<Rightarrow> Destination \<Rightarrow> string + 'file) \<Rightarrow>
   (Time \<Rightarrow> int \<Rightarrow> Time) \<Rightarrow> Time \<Rightarrow>
   FirstParty \<Rightarrow> string \<Rightarrow> Transfer option \<Rightarrow> Source \<Rightarrow> Destination \<Rightarrow> error + 'file list" where
  "Originate constructFile AddBankingDay when fp companyID xfer src dst =
     (if Account.RoutingNumber (Source.Account src) = Account.RoutingNumber (Destination.Account dst)
      then Inl (EndpointRejected (Account.RoutingNumber (Source.Account src)))
      else if Account.RoutingNumber (Source.Account src) \<noteq> ODFI.RoutingNumber (cfg fp)
            \<and> Account.RoutingNumber (Destination.Account dst) \<noteq> ODFI.RoutingNumber (cfg fp)
      then Inl (ThirdPartyRejected (Account.RoutingNumber (Source.Account src))
                                   (Account.RoutingNumber (Destination.Account dst)))
      else if ODFI.RoutingNumber (cfg fp) = Account.RoutingNumber (Destination.Account dst)
            \<and> \<not> EqualFold (Customer.Status (Source.Customer src)) CUSTOMERSTATUS_VERIFIED
      then Inl (DebitNotAllowed (Customer.CustomerID (Source.Customer src))
                                (Customer.Status (Source.Customer src)))
      else
        (case xfer of
           None \<Rightarrow> Inl NilPointerDereference
         | Some x \<Rightarrow>
             (case constructFile (TransferID x)
                     (originateOptions AddBankingDay when fp companyID x) x src dst of
                Inl err \<Rightarrow> Inl (BuildFailed (TransferID x) err)
              | Inr file \<Rightarrow> Inr [file])))"


section \<open>The transfer repository\<close>

text \<open>
  The database behind \<^verbatim>\<open>sqlRepo\<close> is the two tables the statements of the repository
  touch, each a list of rows in storage order. The columns are those of the migrations
  that the statements read or write. The timestamps are UTC. The primary key of
  \<open>transfers\<close> is \<open>transfer_id\<close>; where a property depends on it, it is the hypothesis
  that the identifiers of the rows are distinct.

  The database is taken to be reachable: preparing and executing a statement succeeds, and
  the one error a statement yields is \<^verbatim>\<open>sql.ErrNoRows\<close>, from the \<^verbatim>\<open>Scan\<close> of a
  \<^verbatim>\<open>QueryRow\<close> that selected nothing. A \<^verbatim>\<open>select\<close> without \<^verbatim>\<open>order by\<close> yields its rows
  in storage order, so \<^verbatim>\<open>limit 1\<close> is the first row that matches.
\<close>

record transfer_row =
  transfer_id :: string
  organization :: string
  amount_currency :: string
  amount_value :: int
  source_customer_id :: string
  source_account_id :: string
  destination_customer_id :: string
  destination_account_id :: string
  description :: string
  status :: string
  same_day :: bool
  return_code :: "string option"
  created_at :: Time
  deleted_at :: "Time option"
  processed_at :: "Time option"

record trace_row =
  transfer_id :: string
  trace_number :: string

record DB =
  transfers :: "transfer_row list"
  transfer_trace_numbers :: "trace_row list"

record transferFilterParams =
  Status :: string
  StartDate :: Time
  EndDate :: Time
  CustomerIDs :: "string list"
  Skip :: nat
  Count :: nat

text \<open>
  Modelled from the spec: the constants \<^verbatim>\<open>client.PENDING\<close> and \<^verbatim>\<open>client.PROCESSED\<close> of the
  generated client, which the code passes to its statements; the spec writes the statuses
  PENDING and PROCESSED.
\<close>

definition PENDING :: string where
  "PENDING = ''PENDING''"

definition PROCESSED :: string where
  "PROCESSED = ''PROCESSED''"

text \<open>\<^verbatim>\<open>getTraceNumbers\<close>: the trace numbers of a transfer, the empty ones skipped.\<close>

definition getTraceNumbers :: "DB \<Rightarrow> string \<Rightarrow> string list" where
  "getTraceNumbers db transferID =
     filter (\<lambda>row. row \<noteq> '''')
       (map trace_number
          (filter (\<lambda>tr. trace_row.transfer_id tr = transferID) (transfer_trace_numbers db)))"

text \<open>
  The \<^verbatim>\<open>client.Transfer\<close> that \<^verbatim>\<open>getUserTransfer\<close> assembles from a selected row: the
  scanned columns, the trace numbers and the return code. \<open>LookupReturnCode\<close> stands for
  \<^verbatim>\<open>ach.LookupReturnCode\<close> of the ACH library, with the three fields the code copies.
\<close>

definition scanTransfer ::
  "(string \<Rightarrow> ReturnCode option) \<Rightarrow> DB \<Rightarrow> string \<Rightarrow> transfer_row \<Rightarrow> Transfer" where
  "scanTransfer LookupReturnCode db transferID row =
     \<lparr>TransferID = transfer_row.transfer_id row,
      Amount = \<lparr>Currency = amount_currency row, Value = amount_value row\<rparr>,
      Source = \<lparr>TransferSource.CustomerID = source_customer_id row,
                TransferSource.AccountID = source_account_id row\<rparr>,
      Destination = \<lparr>TransferDestination.CustomerID = destination_customer_id row,
                     TransferDestination.AccountID = destination_account_id row\<rparr>,
      Transfer.Description = description row,
      Transfer.Status = status row,
      SameDay = same_day row,
      ReturnCode = (case return_code row of None \<Rightarrow> None | Some rc \<Rightarrow> LookupReturnCode rc),
      ProcessedAt = processed_at row,
      Created = created_at row,
      TraceNumbers = getTraceNumbers db transferID\<rparr>"

text \<open>
  \<^verbatim>\<open>getUserTransfer\<close> returns \<^verbatim>\<open>(nil, err)\<close> when the scan fails, \<^verbatim>\<open>(nil, nil)\<close> when the row
  it read has an empty identifier, and the transfer otherwise.
\<close>

definition getUserTransfer ::
  "(string \<Rightarrow> ReturnCode option) \<Rightarrow> DB \<Rightarrow> string \<Rightarrow> string \<Rightarrow> error + Transfer option" where
  "getUserTransfer LookupReturnCode db transferID orgID =
     (case find (\<lambda>row. transfer_row.transfer_id row = transferID \<and> organization row = orgID
                        \<and> deleted_at row = None) (transfers db) of
        None \<Rightarrow> Inl ErrNoRows
      | Some row \<Rightarrow>
          if transfer_row.transfer_id row = '''' then Inr None
          else Inr (Some (scanTransfer LookupReturnCode db transferID row)))"

definition GetTransfer ::
  "(string \<Rightarrow> ReturnCode option) \<Rightarrow> DB \<Rightarrow> string \<Rightarrow> error + Transfer option" where
  "GetTransfer LookupReturnCode db transferID =
     (case find (\<lambda>row. transfer_row.transfer_id row = transferID \<and> deleted_at row = None)
             (transfers db) of
        None \<Rightarrow> Inl ErrNoRows
      | Some row \<Rightarrow> getUserTransfer LookupReturnCode db transferID (organization row))"

text \<open>
  The rows that the statement of \<^verbatim>\<open>getTransfers\<close> selects: the \<^verbatim>\<open>where\<close> clause with its
  two optional parts, \<^verbatim>\<open>order by created_at desc\<close> (rows of equal time stay in storage
  order) and \<^verbatim>\<open>limit ? offset ?\<close>.
\<close>

definition selectTransferIDs :: "DB \<Rightarrow> string \<Rightarrow> transferFilterParams \<Rightarrow> string list" where
  "selectTransferIDs db orgID params =
     map transfer_row.transfer_id
       (take (Count params)
          (drop (Skip params)
             (sort_key (\<lambda>row. - created_at row)
                (filter (\<lambda>row. organization row = orgID
                            \<and> created_at row \<ge> StartDate params
                            \<and> created_at row \<le> EndDate params
                            \<and> deleted_at row = None
                            \<and> (Status params \<noteq> '''' \<longrightarrow> status row = Status params)
                            \<and> (length (CustomerIDs params) > 0 \<longrightarrow>
                                 source_customer_id row \<in> set (CustomerIDs params)
                                 \<or> destination_customer_id row \<in> set (CustomerIDs params)))
                   (transfers db)))))"

text \<open>
  The second loop of \<^verbatim>\<open>getTransfers\<close>: each identifier is read with
  \<^verbatim>\<open>getUserTransfer\<close> and appended when the read returned no error and a transfer with an
  identifier. The test \<^verbatim>\<open>t.TransferID != ""\<close> reads through the returned pointer, which is
  nil when \<^verbatim>\<open>getUserTransfer\<close> returned \<^verbatim>\<open>(nil, nil)\<close>.
\<close>

fun readTransfers ::
  "(string \<Rightarrow> ReturnCode option) \<Rightarrow> DB \<Rightarrow> string \<Rightarrow> string list \<Rightarrow> Transfer list
   \<Rightarrow> error + Transfer list" where
  "readTransfers LookupReturnCode db orgID [] acc = Inr acc"
| "readTransfers LookupReturnCode db orgID (transferID # transferIDs) acc =
     (case getUserTransfer LookupReturnCode db transferID orgID of
        Inl err \<Rightarrow> readTransfers LookupReturnCode db orgID transferIDs acc
      | Inr None \<Rightarrow> Inl NilPointerDereference
      | Inr (Some t) \<Rightarrow>
          if TransferID t \<noteq> ''''
          then readTransfers LookupReturnCode db orgID transferIDs (acc @ [t])
          else readTransfers LookupReturnCode db orgID transferIDs acc)"

definition getTransfers ::
  "(string \<Rightarrow> ReturnCode option) \<Rightarrow> DB \<Rightarrow> string \<Rightarrow> transferFilterParams
   \<Rightarrow> error + Transfer list" where
  "getTransfers LookupReturnCode db orgID params =
     (let transferIDs = filter (\<lambda>row. row \<noteq> '''') (selectTransferIDs db orgID params)
      in readTransfers LookupReturnCode db orgID transferIDs [])"

text \<open>
  The mutations return the error of the source (\<open>None\<close> is nil) and the database after
  the statement.
\<close>

definition UpdateTransferStatus :: "DB \<Rightarrow> string \<Rightarrow> string \<Rightarrow> error option \<times> DB" where
  "UpdateTransferStatus db transferID newStatus =
     (None,
      db\<lparr>transfers :=
           map (\<lambda>row. if transfer_row.transfer_id row = transferID \<and> deleted_at row = None
                       then row\<lparr>status := newStatus\<rparr> else row)
               (transfers db)\<rparr>)"

text \<open>
  \<^verbatim>\<open>SaveReturnCode\<close>: \<^verbatim>\<open>Exec\<close> returns no error, whether or not a row matched, and the
  source maps \<^verbatim>\<open>sql.ErrNoRows\<close> to nil.
\<close>

definition SaveReturnCode :: "DB \<Rightarrow> string \<Rightarrow> string \<Rightarrow> error option \<times> DB" where
  "SaveReturnCode db transferID returnCode =
     (let err = None;
          db' = db\<lparr>transfers :=
                  map (\<lambda>row. if transfer_row.transfer_id row = transferID
                                  \<and> return_code row = None \<and> deleted_at row = None
                              then row\<lparr>return_code := Some returnCode\<rparr> else row)
                      (transfers db)\<rparr>
      in (if err = Some ErrNoRows then None else err, db'))"

text \<open>
  \<^verbatim>\<open>deleteUserTransfer\<close> runs in a transaction: after a rollback the database is the one
  it started from. \<open>now\<close> is the reading of \<^verbatim>\<open>time.Now()\<close>.
\<close>

definition deleteUserTransfer :: "Time \<Rightarrow> DB \<Rightarrow> string \<Rightarrow> string \<Rightarrow> error option \<times> DB" where
  "deleteUserTransfer now db orgID transferID =
     (case find (\<lambda>row. transfer_row.transfer_id row = transferID \<and> organization row = orgID
                        \<and> deleted_at row = None) (transfers db) of
        None \<Rightarrow> (None, db)
      | Some row \<Rightarrow>
          if \<not> EqualFold (status row) PENDING then (Some (NotPending transferID), db)
          else
            (None,
             db\<lparr>transfers :=
                  map (\<lambda>row. if transfer_row.transfer_id row = transferID
                                  \<and> organization row = orgID \<and> status row = PENDING
                                  \<and> deleted_at row = None
                              then row\<lparr>deleted_at := Some now\<rparr> else row)
                      (transfers db)\<rparr>))"

text \<open>\<^verbatim>\<open>in.Truncate(24 * time.Hour)\<close> and the instant 24 hours later.\<close>

definition startOfDayAndTomorrow :: "Time \<Rightarrow> Time \<times> Time" where
  "startOfDayAndTomorrow t =
     (let start = t - t mod (24 * 3600) in (start, start + 24 * 3600))"

text \<open>
  \<^verbatim>\<open>LookupTransferFromReturn\<close>: the inner join pairs every transfer with each of its trace
  rows; the first pair that satisfies the \<^verbatim>\<open>where\<close> clause gives the identifier and the
  organization with which the transfer is then read.
\<close>

definition LookupTransferFromReturn ::
  "(string \<Rightarrow> ReturnCode option) \<Rightarrow> DB \<Rightarrow> Amount \<Rightarrow> string \<Rightarrow> Time
   \<Rightarrow> error + Transfer option" where
  "LookupTransferFromReturn LookupReturnCode db amount traceNumber effectiveEntryDate =
     (let (min0, max0) = startOfDayAndTomorrow effectiveEntryDate;
          min = min0 - 5 * 24 * 3600;
          max = max0 + 5 * 24 * 3600
      in case find (\<lambda>(xf, trace).
                      amount_value xf = Value amount \<and> trace_number trace = traceNumber
                      \<and> status xf = PROCESSED
                      \<and> (created_at xf > min \<and> created_at xf < max)
                      \<and> deleted_at xf = None)
                (concat (map (\<lambda>xf. map (\<lambda>trace. (xf, trace))
                                  (filter (\<lambda>trace. transfer_row.transfer_id xf
                                                      = trace_row.transfer_id trace)
                                     (transfer_trace_numbers db)))
                           (transfers db))) of
           None \<Rightarrow> Inl ErrNoRows
         | Some (xf, trace) \<Rightarrow>
             getUserTransfer LookupReturnCode db (transfer_row.transfer_id xf) (organization xf))"


section \<open>The file builder\<close>

text \<open>
  \<^verbatim>\<open>achx.ConstructFile\<close> and the ACH file structs it fills are not among the files at hand.
  The file is one list of batches, each a list of entry details, and an entry detail has
  the receiving routing number, the account number, the amount and the trace number.
\<close>

record EntryDetail =
  RDFIIdentification :: string
  DFIAccountNumber :: string
  Amount :: int
  TraceNumber :: string

record Batch =
  Entries :: "EntryDetail list"

record File =
  Batches :: "Batch list"

text \<open>
  Modelled from the spec: the trace number of the \<open>seq\<close>-th entry of a file, absent from
  the files at hand with the rest of \<^verbatim>\<open>achx\<close>. The spec: "assign every entry a trace number
  of the form <first-8-of-ODFI-routing><seq> with seq a zero-padded monotonically
  increasing counter per file"; a trace number has 15 digits, so the counter has seven.
\<close>

definition entryTraceNumber :: "string \<Rightarrow> nat \<Rightarrow> string" where
  "entryTraceNumber odfiRouting seq =
     take 8 odfiRouting
       @ map (\<lambda>k. digit (seq div 10 ^ k mod 10)) [6, 5, 4, 3, 2, 1, 0]"

text \<open>
  Modelled from the spec: \<^verbatim>\<open>achx.ConstructFile\<close>, which is not among the files at hand. The
  spec: "emit one File with one Batch; the Batch contains one Entry Detail whose receiving
  routing number and account number come from the counterparty (the non-ODFI side); if
  balanceEntries is enabled [...] append a second entry reversing the transaction against
  an internal offset account at the ODFI so the batch nets to zero; assign every entry a
  trace number [...]; call the NACHA library's Validate and fail if any rule is violated".
  The builder reads the balance flag from the options it is given: the threshold of $0.50
  is applied by \<^verbatim>\<open>Originate\<close>, in the source, when it sets that flag. The choice of the SEC
  code and of the transaction codes is left out. \<open>Validate\<close> stands for the validation by
  the ACH library (\<open>None\<close> is a valid file) and \<open>offsetAccount\<close> for the number of the
  internal offset account.
\<close>

definition ConstructFile ::
  "(File \<Rightarrow> string option) \<Rightarrow> string \<Rightarrow>
   string \<Rightarrow> Options \<Rightarrow> Transfer \<Rightarrow> Source \<Rightarrow> Destination \<Rightarrow> string + File" where
  "ConstructFile Validate offsetAccount transferID opts xfer source destination =
     (let odfi = ODFIRoutingNumber opts;
          entry =
            (if Account.RoutingNumber (Source.Account source) = odfi
             then \<lparr>RDFIIdentification = Account.RoutingNumber (Destination.Account destination),
                   DFIAccountNumber = Destination.AccountNumber destination,
                   EntryDetail.Amount = Value (Transfer.Amount xfer),
                   TraceNumber = entryTraceNumber odfi 1\<rparr>
             else \<lparr>RDFIIdentification = Account.RoutingNumber (Source.Account source),
                   DFIAccountNumber = Source.AccountNumber source,
                   EntryDetail.Amount = Value (Transfer.Amount xfer),
                   TraceNumber = entryTraceNumber odfi 1\<rparr>);
          offset =
            \<lparr>RDFIIdentification = odfi,
             DFIAccountNumber = offsetAccount,
             EntryDetail.Amount = Value (Transfer.Amount xfer),
             TraceNumber = entryTraceNumber odfi 2\<rparr>;
          file =
            \<lparr>Batches =
               [\<lparr>Entries = (if BalanceEntries (Options.FileConfig opts)
                             then [entry, offset] else [entry])\<rparr>]\<rparr>
      in case Validate file of
           Some err \<Rightarrow> Inl err
         | None \<Rightarrow> Inr file)"

text \<open>The entries of a file and the trace numbers assigned in it, in file order.\<close>

definition fileEntries :: "File \<Rightarrow> EntryDetail list" where
  "fileEntries file = concat (map Entries (Batches file))"

definition fileTraceNumbers :: "File \<Rightarrow> string list" where
  "fileTraceNumbers file = map TraceNumber (fileEntries file)"


section \<open>File names\<close>

text \<open>
  Modelled from the spec: \<^verbatim>\<open>RoundSequenceNumber\<close>, of which the files at hand hold the test
  only. The spec: "Sequence numbers use the mapping 0-9 to '0'-'9', 10-35 to 'A'-'Z'
  (base-36 single digit)"; the letters are continued past 35 as they begin.
\<close>

definition RoundSequenceNumber :: "nat \<Rightarrow> string" where
  "RoundSequenceNumber seq =
     (if seq < 10 then [digit seq] else [char_of (65 + seq - 10)])"

text \<open>
  Modelled from the spec: the rendering of a file name that carries a sequence number, in
  the shape of the spec's first scenario, \<^verbatim>\<open>YYYYMMDD-1620-221475786-1.ach\<close>, with the
  suffix \<^verbatim>\<open>.gpg\<close> of the default template for an encrypted file. The template engine is not
  among the files at hand.
\<close>

definition RenderACHFilename :: "string \<Rightarrow> string \<Rightarrow> string \<Rightarrow> nat \<Rightarrow> bool \<Rightarrow> string" where
  "RenderACHFilename date time routingNumber seq gpg =
     date @ ''-'' @ time @ ''-'' @ routingNumber @ ''-'' @ RoundSequenceNumber seq
       @ ''.ach'' @ (if gpg then ''.gpg'' else '''')"

text \<open>
  \<^verbatim>\<open>strings.NewReplacer(".ach", "", ".gpg", "").Replace\<close>: every occurrence of either
  text is removed, scanning from the left.
\<close>

function removeSuffixes :: "string \<Rightarrow> string" where
  "removeSuffixes [] = []"
| "removeSuffixes (c # cs) =
     (if take 4 (c # cs) = ''.ach'' \<or> take 4 (c # cs) = ''.gpg''
      then removeSuffixes (drop 3 cs)
      else c # removeSuffixes cs)"
  by pat_completeness auto
termination
  by (relation "measure length") auto

text \<open>\<^verbatim>\<open>strings.Split(s, "-")\<close>, which yields one empty part for the empty text.\<close>

fun splitAt :: "char \<Rightarrow> string \<Rightarrow> string list" where
  "splitAt sep [] = [[]]"
| "splitAt sep (c # cs) =
     (if c = sep then [] # splitAt sep cs
      else (case splitAt sep cs of
              [] \<Rightarrow> [[c]]
            | part # parts \<Rightarrow> (c # part) # parts))"

text \<open>The number a part of a file name stands for, if it is one sequence character.\<close>

definition sequenceOfPart :: "string \<Rightarrow> nat option" where
  "sequenceOfPart part =
     (case part of
        [c] \<Rightarrow>
          if CHR ''0'' \<le> c \<and> c \<le> CHR ''9'' then Some (of_char c - 48)
          else if CHR ''A'' \<le> c \<and> c \<le> CHR ''Z'' then Some (of_char c - 65 + 10)
          else None
      | _ \<Rightarrow> None)"

fun firstSequence :: "string list \<Rightarrow> nat" where
  "firstSequence [] = 0"
| "firstSequence (part # parts) =
     (case sequenceOfPart part of
        Some n \<Rightarrow> n
      | None \<Rightarrow> firstSequence parts)"

text \<open>
  Modelled from the spec: \<^verbatim>\<open>ACHFilenameSeq\<close>, of which the files at hand hold the test
  only. The spec gives its law, "ACHFilenameSeq(Render({..., seq: n})) = n", and the test
  its values: the suffixes \<^verbatim>\<open>.ach\<close> and \<^verbatim>\<open>.gpg\<close> are dropped, the name is split at the
  dashes, and the first part that is a sequence character is decoded; a name without such
  a part gives 0.
\<close>

definition ACHFilenameSeq :: "string \<Rightarrow> nat" where
  "ACHFilenameSeq filename = firstSequence (splitAt CHR ''-'' (removeSuffixes filename))"

text \<open>A part of a file name that holds no dot and no dash and is not a single character.\<close>

definition plainPart :: "string \<Rightarrow> bool" where
  "plainPart s \<longleftrightarrow> CHR ''.'' \<notin> set s \<and> CHR ''-'' \<notin> set s \<and> length s \<noteq> 1"


section \<open>Example values\<close>

text \<open>
  The values of the repository's tests \<^verbatim>\<open>TestOriginate__RoutingNumberErr\<close>,
  \<^verbatim>\<open>TestOriginate__DebitCheck\<close> and \<^verbatim>\<open>TestOriginateFull\<close>, and of the spec's scenarios.
\<close>

definition emptyODFI :: ODFI where
  "emptyODFI =
     \<lparr>ODFI.RoutingNumber = '''',
      ODFI.Gateway = \<lparr>Origin = '''', OriginName = '''', Gateway.Destination = '''',
                       DestinationName = ''''\<rparr>,
      ODFI.FileConfig = \<lparr>BalanceEntries = False\<rparr>,
      Cutoffs = \<lparr>Timezone = '''', Windows = []\<rparr>\<rparr>"

definition testODFI :: ODFI where
  "testODFI = emptyODFI\<lparr>ODFI.RoutingNumber := ''987654320''\<rparr>"

definition endpointSource :: "string \<Rightarrow> string \<Rightarrow> Source" where
  "endpointSource st routing =
     \<lparr>Source.Customer = \<lparr>Customer.CustomerID = '''', Customer.Status = st\<rparr>,
      Source.Account = \<lparr>Account.RoutingNumber = routing\<rparr>,
      Source.AccountNumber = ''123456''\<rparr>"

definition endpointDestination :: "string \<Rightarrow> Destination" where
  "endpointDestination routing =
     \<lparr>Destination.Customer = \<lparr>Customer.CustomerID = '''', Customer.Status = ''''\<rparr>,
      Destination.Account = \<lparr>Account.RoutingNumber = routing\<rparr>,
      Destination.AccountNumber = ''654321''\<rparr>"

definition testTransfer :: "int \<Rightarrow> Transfer" where
  "testTransfer v =
     \<lparr>TransferID = ''t1'',
      Transfer.Amount = \<lparr>Currency = ''USD'', Value = v\<rparr>,
      Source = \<lparr>TransferSource.CustomerID = '''', TransferSource.AccountID = ''''\<rparr>,
      Destination = \<lparr>TransferDestination.CustomerID = '''',
                     TransferDestination.AccountID = ''''\<rparr>,
      Transfer.Description = ''test payment'',
      Transfer.Status = ''PENDING'',
      SameDay = False,
      ReturnCode = None,
      ProcessedAt = None,
      Created = 0,
      TraceNumbers = []\<rparr>"


text \<open>
  A database after the spec's return scenario has begun: \<open>t1\<close> for $12.34 is PROCESSED with
  the trace number \<open>T123\<close>, \<open>t2\<close> is PENDING, and \<open>t3\<close> was PENDING when it was deleted.
  All three were created at 10:00 on day 18736.
\<close>

definition exampleRow :: "string \<Rightarrow> int \<Rightarrow> string \<Rightarrow> Time option \<Rightarrow> transfer_row" where
  "exampleRow i v st del =
     \<lparr>transfer_row.transfer_id = i,
      organization = ''org1'',
      amount_currency = ''USD'',
      amount_value = v,
      source_customer_id = ''c1'',
      source_account_id = ''a1'',
      destination_customer_id = ''c2'',
      destination_account_id = ''a2'',
      description = ''payment'',
      status = st,
      same_day = False,
      return_code = None,
      created_at = 18736 * 86400 + 10 * 3600,
      deleted_at = del,
      processed_at = None\<rparr>"

definition exampleDB :: DB where
  "exampleDB =
     \<lparr>transfers =
        [exampleRow ''t1'' 1234 ''PROCESSED'' None,
         exampleRow ''t2'' 153 ''PENDING'' None,
         exampleRow ''t3'' 25 ''PENDING'' (Some (18736 * 86400 + 11 * 3600))],
      transfer_trace_numbers =
        [\<lparr>trace_row.transfer_id = ''t1'', trace_number = ''T123''\<rparr>,
         \<lparr>trace_row.transfer_id = ''t3'', trace_number = ''T999''\<rparr>]\<rparr>"

definition exampleReturnCodes :: "string \<Rightarrow> ReturnCode option" where
  "exampleReturnCodes c =
     (if c = ''R01''
      then Some \<lparr>Code = ''R01'', Reason = ''Insufficient Funds'',
                 ReturnCode.Description = ''Available balance is not sufficient''\<rparr>
      else None)"

definition exampleParams :: transferFilterParams where
  "exampleParams =
     \<lparr>transferFilterParams.Status = '''', StartDate = 18736 * 86400,
      EndDate = 18737 * 86400, CustomerIDs = [], Skip = 0, Count = 10\<rparr>"

text \<open>
  The configuration of the spec's first two scenarios: the ODFI 221475786 with balance
  entries on. The builder of the scenarios accepts every file.
\<close>

definition scenarioODFI :: ODFI where
  "scenarioODFI =
     emptyODFI\<lparr>ODFI.RoutingNumber := ''221475786'',
               ODFI.FileConfig := \<lparr>BalanceEntries = True\<rparr>\<rparr>"

definition scenarioBuilder ::
  "string \<Rightarrow> Options \<Rightarrow> Transfer \<Rightarrow> Source \<Rightarrow> Destination \<Rightarrow> string + File" where
  "scenarioBuilder = ConstructFile (\<lambda>file. None) ''offset''"

text \<open>A calendar on which every day is a banking day.\<close>

definition everyDayBanking :: "Time \<Rightarrow> int \<Rightarrow> Time" where
  "everyDayBanking t d = t + 86400 * d"

text \<open>A file builder that fails on every transfer.\<close>

definition failingBuilder ::
  "string \<Rightarrow> Options \<Rightarrow> Transfer \<Rightarrow> Source \<Rightarrow> Destination \<Rightarrow> string + unit" where
  "failingBuilder transferID opts xfer src dst = Inl ''invalid''"


section \<open>Properties of the first-party fund flow\<close>

text \<open>
  C5. \<^verbatim>\<open>Originate\<close> returns an error, and no file, whenever the routing numbers of source
  and destination are equal (the endpoint rejection), and whenever neither of them is the
  routing number of the ODFI (the third-party rejection); where both hold, the endpoint
  rejection is the one returned. This holds for every transfer pointer, nil included, and
  whatever \<^verbatim>\<open>achx.ConstructFile\<close> would do.
\<close>

theorem Originate_routing_rejections:
  fixes src :: Source and dst :: Destination
  defines "sr \<equiv> Account.RoutingNumber (Source.Account src)"
      and "dr \<equiv> Account.RoutingNumber (Destination.Account dst)"
  shows "(sr = dr \<longrightarrow>
            Originate constructFile AddBankingDay tm fp companyID xfer src dst
              = Inl (EndpointRejected sr))
       \<and> (sr \<noteq> ODFI.RoutingNumber (cfg fp) \<and> dr \<noteq> ODFI.RoutingNumber (cfg fp) \<longrightarrow>
            Originate constructFile AddBankingDay tm fp companyID xfer src dst
              = Inl (if sr = dr then EndpointRejected sr else ThirdPartyRejected sr dr))"
  by (simp add: Originate_def sr_def dr_def)

theorem Originate_routing_rejections_witness:
  "Originate failingBuilder everyDayBanking 0 \<lparr>cfg = emptyODFI\<rparr> ''companyID'' None
      (endpointSource '''' ''987654320'') (endpointDestination ''987654320'')
     = Inl (EndpointRejected ''987654320'')
   \<and> Originate failingBuilder everyDayBanking 0 \<lparr>cfg = testODFI\<rparr> ''companyID'' None
      (endpointSource '''' ''123'') (endpointDestination ''987'')
     = Inl (ThirdPartyRejected ''123'' ''987'')"
  using
    Originate_routing_rejections [where src = "endpointSource '''' ''987654320''"
      and dst = "endpointDestination ''987654320''" and fp = "\<lparr>cfg = emptyODFI\<rparr>"
      and constructFile = failingBuilder and AddBankingDay = everyDayBanking and tm = 0
      and companyID = "''companyID''" and xfer = None]
    Originate_routing_rejections [where src = "endpointSource '''' ''123''"
      and dst = "endpointDestination ''987''" and fp = "\<lparr>cfg = testODFI\<rparr>"
      and constructFile = failingBuilder and AddBankingDay = everyDayBanking and tm = 0
      and companyID = "''companyID''" and xfer = None]
  by (simp add: endpointSource_def endpointDestination_def testODFI_def emptyODFI_def)

text \<open>
  C6. \<^verbatim>\<open>Originate\<close> returns an error, and no file, whenever the destination is at the
  ODFI (the transfer debits the source) and the status of the source's customer is not
  VERIFIED under case folding: the error is the endpoint rejection when the source is at
  the ODFI as well, and the debit rejection otherwise. When the source is at the ODFI the
  status of its customer is not examined: the debit rejection is never returned, and once
  the routing numbers differ the result is that of building the file.
\<close>

theorem Originate_debit_check:
  fixes src :: Source and dst :: Destination
  defines "sr \<equiv> Account.RoutingNumber (Source.Account src)"
      and "dr \<equiv> Account.RoutingNumber (Destination.Account dst)"
      and "st \<equiv> Customer.Status (Source.Customer src)"
  shows "(dr = ODFI.RoutingNumber (cfg fp) \<and> \<not> EqualFold st CUSTOMERSTATUS_VERIFIED \<longrightarrow>
            Originate constructFile AddBankingDay tm fp companyID xfer src dst
              = Inl (if sr = dr then EndpointRejected sr
                     else DebitNotAllowed (Customer.CustomerID (Source.Customer src)) st))
       \<and> (sr = ODFI.RoutingNumber (cfg fp) \<longrightarrow>
            (\<forall>c s. Originate constructFile AddBankingDay tm fp companyID xfer src dst
                     \<noteq> Inl (DebitNotAllowed c s))
          \<and> (sr \<noteq> dr \<longrightarrow>
               Originate constructFile AddBankingDay tm fp companyID xfer src dst
                 = (case xfer of
                      None \<Rightarrow> Inl NilPointerDereference
                    | Some x \<Rightarrow>
                        (case constructFile (TransferID x)
                                (originateOptions AddBankingDay tm fp companyID x) x src dst of
                           Inl err \<Rightarrow> Inl (BuildFailed (TransferID x) err)
                         | Inr file \<Rightarrow> Inr [file]))))"
  by (auto simp add: Originate_def sr_def dr_def st_def split: option.splits sum.splits)

theorem Originate_debit_check_witness:
  "Originate failingBuilder everyDayBanking 0 \<lparr>cfg = testODFI\<rparr> ''MOOV''
      (Some (testTransfer 0)) (endpointSource ''RECEIVE_ONLY'' '''') (endpointDestination ''987654320'')
     = Inl (DebitNotAllowed '''' ''RECEIVE_ONLY'')
   \<and> Originate failingBuilder everyDayBanking 0 \<lparr>cfg = testODFI\<rparr> ''MOOV''
      (Some (testTransfer 0)) (endpointSource ''RECEIVE_ONLY'' ''987654320'')
      (endpointDestination ''123456780'')
     = Inl (BuildFailed ''t1'' ''invalid'')"
  using
    Originate_debit_check [where src = "endpointSource ''RECEIVE_ONLY'' ''''"
      and dst = "endpointDestination ''987654320''" and fp = "\<lparr>cfg = testODFI\<rparr>"
      and constructFile = failingBuilder and AddBankingDay = everyDayBanking and tm = 0
      and companyID = "''MOOV''" and xfer = "Some (testTransfer 0)"]
    Originate_debit_check [where src = "endpointSource ''RECEIVE_ONLY'' ''987654320''"
      and dst = "endpointDestination ''123456780''" and fp = "\<lparr>cfg = testODFI\<rparr>"
      and constructFile = failingBuilder and AddBankingDay = everyDayBanking and tm = 0
      and companyID = "''MOOV''" and xfer = "Some (testTransfer 0)"]
  by (simp add: endpointSource_def endpointDestination_def testODFI_def emptyODFI_def
      testTransfer_def failingBuilder_def EqualFold_def CUSTOMERSTATUS_VERIFIED_def toLower_def)

section \<open>Properties of the effective entry date\<close>

subsection \<open>The text of a time of day orders as the time of day\<close>





















section \<open>Properties of the repository\<close>

subsection \<open>Selecting by a key\<close>


lemma distinct_key_eq:
  assumes "distinct (map f xs)" and "x \<in> set xs" and "y \<in> set xs" and "f x = f y"
  shows "x = y"
  using assms by (simp add: distinct_map inj_on_def)

lemma find_SomeD: "find P xs = Some x \<Longrightarrow> x \<in> set xs \<and> P x"
  by (induction xs) (auto split: if_splits)

lemma getUserTransfer_Some:
  assumes "getUserTransfer L db transferID orgID = Inr (Some t)"
  shows "\<exists>row\<in>set (transfers db). transfer_row.transfer_id row = transferID
           \<and> organization row = orgID \<and> deleted_at row = None
           \<and> t = scanTransfer L db transferID row"
proof (cases "find (\<lambda>row. transfer_row.transfer_id row = transferID \<and> organization row = orgID
                        \<and> deleted_at row = None) (transfers db)")
  case None
  with assms show ?thesis by (simp add: getUserTransfer_def)
next
  case (Some row)
  from find_SomeD [OF Some] have r: "row \<in> set (transfers db)"
    "transfer_row.transfer_id row = transferID" "organization row = orgID" "deleted_at row = None"
    by simp_all
  from assms Some have "t = scanTransfer L db transferID row"
    by (simp add: getUserTransfer_def split: if_splits)
  with r show ?thesis by blast
qed

lemma GetTransfer_Some:
  assumes "GetTransfer L db transferID = Inr (Some t)"
  shows "\<exists>row\<in>set (transfers db). transfer_row.transfer_id row = transferID
           \<and> deleted_at row = None \<and> t = scanTransfer L db transferID row"
proof (cases "find (\<lambda>row. transfer_row.transfer_id row = transferID \<and> deleted_at row = None)
             (transfers db)")
  case None
  with assms show ?thesis by (simp add: GetTransfer_def)
next
  case (Some r0)
  with assms have "getUserTransfer L db transferID (organization r0) = Inr (Some t)"
    by (simp add: GetTransfer_def)
  from getUserTransfer_Some [OF this] show ?thesis by blast
qed

lemma find_None_key:
  assumes "distinct (map f xs)" and "x \<in> set xs" and "\<not> P x"
    and "\<And>y. P y \<Longrightarrow> f y = f x"
  shows "find P xs = None"
proof -
  have "\<not> P y" if "y \<in> set xs" for y
  proof
    assume "P y"
    then have "f y = f x" by (rule assms(4))
    then have "y = x" using distinct_key_eq [OF assms(1) that assms(2)] by simp
    with \<open>P y\<close> assms(3) show False by simp
  qed
  then show ?thesis by (simp add: find_None_iff)
qed

subsection \<open>Every transfer read comes from a row that is not soft-deleted\<close>

lemma readTransfers_Some:
  assumes "readTransfers L db orgID ids acc = Inr ts"
    and "t \<in> set ts" and "t \<notin> set acc"
  shows "\<exists>row\<in>set (transfers db). deleted_at row = None
           \<and> t = scanTransfer L db (transfer_row.transfer_id row) row"
  using assms
proof (induction ids arbitrary: acc)
  case Nil
  then show ?case by simp
next
  case (Cons i ids)
  show ?case
  proof (cases "getUserTransfer L db i orgID")
    case (Inl e)
    with Cons.prems have "readTransfers L db orgID ids acc = Inr ts" by simp
    from Cons.IH [OF this Cons.prems(2,3)] show ?thesis .
  next
    case (Inr o1)
    show ?thesis
    proof (cases o1)
      case None
      with Inr Cons.prems show ?thesis by simp
    next
      case (Some u)
      from getUserTransfer_Some [of L db i orgID u] Inr Some
      obtain row where row: "row \<in> set (transfers db)" "transfer_row.transfer_id row = i"
        "deleted_at row = None" "u = scanTransfer L db i row" by auto
      show ?thesis
      proof (cases "t = u")
        case True
        with row show ?thesis by auto
      next
        case False
        show ?thesis
        proof (cases "TransferID u \<noteq> ''''")
          case True
          with Cons.prems(1) Inr Some
          have "readTransfers L db orgID ids (acc @ [u]) = Inr ts" by simp
          moreover have "t \<notin> set (acc @ [u])" using False Cons.prems(3) by simp
          ultimately show ?thesis using Cons.IH Cons.prems(2) by blast
        next
          case False
          with Cons.prems(1) Inr Some
          have "readTransfers L db orgID ids acc = Inr ts" by simp
          from Cons.IH [OF this Cons.prems(2,3)] show ?thesis .
        qed
      qed
    qed
  qed
qed

lemma getTransfers_Some:
  assumes "getTransfers L db orgID params = Inr ts" and "t \<in> set ts"
  shows "\<exists>row\<in>set (transfers db). deleted_at row = None
           \<and> t = scanTransfer L db (transfer_row.transfer_id row) row"
proof -
  from assms(1) have "readTransfers L db orgID
      (filter (\<lambda>row. row \<noteq> '''') (selectTransferIDs db orgID params)) [] = Inr ts"
    by (simp add: getTransfers_def)
  from readTransfers_Some [OF this assms(2)] show ?thesis by simp
qed

lemma TransferID_scanTransfer:
  "TransferID (scanTransfer L db i row) = transfer_row.transfer_id row"
  by (simp add: scanTransfer_def)

lemma truncate_day_bounds:
  fixes c e :: int
  assumes "e - e mod (24 * 3600) - 5 * 24 * 3600 < c"
    and "c < e - e mod (24 * 3600) + 24 * 3600 + 5 * 24 * 3600"
  shows "dayOf e - 5 \<le> dayOf c \<and> dayOf c \<le> dayOf e + 5"
proof -
  have e: "e - e mod 86400 = 86400 * (e div 86400)"
    by (simp add: minus_mod_eq_mult_div)
  have lo: "86400 * (e div 86400 - 5) < c" using assms(1) e by simp
  have hi: "c < 86400 * (e div 86400 + 6)" using assms(2) e by simp
  have "e div 86400 - 5 \<le> c div 86400"
  proof -
    have "86400 * (e div 86400 - 5) \<le> c" using lo by simp
    then have "(86400 * (e div 86400 - 5)) div 86400 \<le> c div 86400"
      by (rule zdiv_mono1) simp
    then show ?thesis by simp
  qed
  moreover have "c div 86400 < e div 86400 + 6"
  proof (rule ccontr)
    assume "\<not> c div 86400 < e div 86400 + 6"
    then have "e div 86400 + 6 \<le> c div 86400" by simp
    then have "86400 * (e div 86400 + 6) \<le> 86400 * (c div 86400)" by simp
    moreover have "c = 86400 * (c div 86400) + c mod 86400" by simp
    moreover have "0 \<le> c mod 86400" by simp
    ultimately show False using hi by linarith
  qed
  ultimately show ?thesis by (simp add: dayOf_def)
qed

lemma LookupTransferFromReturn_Some:
  assumes "LookupTransferFromReturn L db amount traceNumber eed = Inr (Some t)"
  shows "\<exists>xf\<in>set (transfers db). \<exists>trace\<in>set (transfer_trace_numbers db).
           transfer_row.transfer_id xf = trace_row.transfer_id trace
         \<and> amount_value xf = Value amount \<and> trace_number trace = traceNumber
         \<and> status xf = PROCESSED \<and> deleted_at xf = None
         \<and> dayOf eed - 5 \<le> dayOf (created_at xf) \<and> dayOf (created_at xf) \<le> dayOf eed + 5
         \<and> getUserTransfer L db (transfer_row.transfer_id xf) (organization xf) = Inr (Some t)"
proof -
  let ?lo = "eed - eed mod (24 * 3600) - 5 * 24 * 3600"
  let ?hi = "eed - eed mod (24 * 3600) + 24 * 3600 + 5 * 24 * 3600"
  let ?P = "\<lambda>(xf, trace).
                      amount_value xf = Value amount \<and> trace_number trace = traceNumber
                      \<and> status xf = PROCESSED
                      \<and> (created_at xf > ?lo \<and> created_at xf < ?hi)
                      \<and> deleted_at xf = None"
  let ?J = "concat (map (\<lambda>xf. map (\<lambda>trace. (xf, trace))
                                  (filter (\<lambda>trace. transfer_row.transfer_id xf
                                                      = trace_row.transfer_id trace)
                                     (transfer_trace_numbers db)))
                           (transfers db))"
  have unf: "LookupTransferFromReturn L db amount traceNumber eed =
     (case find ?P ?J of None \<Rightarrow> Inl ErrNoRows
      | Some (xf, trace) \<Rightarrow>
          getUserTransfer L db (transfer_row.transfer_id xf) (organization xf))"
    by (simp add: LookupTransferFromReturn_def startOfDayAndTomorrow_def Let_def)
  show ?thesis
  proof (cases "find ?P ?J")
    case None
    with assms unf show ?thesis by simp
  next
    case (Some p)
    obtain xf trace where p: "p = (xf, trace)" by (cases p)
    from find_SomeD [OF Some] p have mem: "(xf, trace) \<in> set ?J" and P: "?P (xf, trace)"
      by simp_all
    from mem have in1: "xf \<in> set (transfers db)" and in2: "trace \<in> set (transfer_trace_numbers db)"
      and j: "transfer_row.transfer_id xf = trace_row.transfer_id trace"
      by auto
    from P have b: "?lo < created_at xf" "created_at xf < ?hi" by simp_all
    from assms unf Some p
    have "getUserTransfer L db (transfer_row.transfer_id xf) (organization xf) = Inr (Some t)"
      by simp
    with j P truncate_day_bounds [OF b]
    have "transfer_row.transfer_id xf = trace_row.transfer_id trace
         \<and> amount_value xf = Value amount \<and> trace_number trace = traceNumber
         \<and> status xf = PROCESSED \<and> deleted_at xf = None
         \<and> dayOf eed - 5 \<le> dayOf (created_at xf) \<and> dayOf (created_at xf) \<le> dayOf eed + 5
         \<and> getUserTransfer L db (transfer_row.transfer_id xf) (organization xf) = Inr (Some t)"
      by simp
    with in1 in2 show ?thesis by blast
  qed
qed


lemma exampleDB_pk: "distinct (map transfer_row.transfer_id (transfers exampleDB))"
  by (simp add: exampleDB_def exampleRow_def)

subsection \<open>Matching a return\<close>

text \<open>
  C2. With \<open>transfer_id\<close> the primary key of \<open>transfers\<close>, whenever
  \<^verbatim>\<open>LookupTransferFromReturn\<close> returns a transfer, that transfer is read from a row that
  is not soft-deleted, a trace row joins its identifier with the given trace number, its
  amount value is the given one, its status is PROCESSED, and the calendar day of its
  creation is at most five days before or after the calendar day of the given effective
  entry date. The result holds at most one transfer by its type.
\<close>

theorem LookupTransferFromReturn_sound:
  assumes pk: "distinct (map transfer_row.transfer_id (transfers db))"
    and ret: "LookupTransferFromReturn L db amount traceNumber eed = Inr (Some t)"
  shows "\<exists>row\<in>set (transfers db).
            t = scanTransfer L db (transfer_row.transfer_id row) row
          \<and> deleted_at row = None
          \<and> (\<exists>trace\<in>set (transfer_trace_numbers db).
                 trace_row.transfer_id trace = TransferID t \<and> trace_number trace = traceNumber)
          \<and> Value (Transfer.Amount t) = Value amount
          \<and> Transfer.Status t = PROCESSED
          \<and> dayOf eed - 5 \<le> dayOf (Created t) \<and> dayOf (Created t) \<le> dayOf eed + 5"
proof -
  from LookupTransferFromReturn_Some [OF ret]
  obtain xf trace where xf: "xf \<in> set (transfers db)"
    and tr: "trace \<in> set (transfer_trace_numbers db)"
    and j: "transfer_row.transfer_id xf = trace_row.transfer_id trace"
    and w: "amount_value xf = Value amount" "trace_number trace = traceNumber"
      "status xf = PROCESSED" "deleted_at xf = None"
      "dayOf eed - 5 \<le> dayOf (created_at xf)" "dayOf (created_at xf) \<le> dayOf eed + 5"
    and g: "getUserTransfer L db (transfer_row.transfer_id xf) (organization xf) = Inr (Some t)"
    by blast
  from getUserTransfer_Some [OF g]
  obtain row where row: "row \<in> set (transfers db)"
    "transfer_row.transfer_id row = transfer_row.transfer_id xf"
    "t = scanTransfer L db (transfer_row.transfer_id xf) row"
    by blast
  have "row = xf" using distinct_key_eq [OF pk row(1) xf row(2)] .
  with row have t: "t = scanTransfer L db (transfer_row.transfer_id xf) xf" by simp
  have "trace_row.transfer_id trace = TransferID t \<and> trace_number trace = traceNumber"
    using t j w(2) by (simp add: scanTransfer_def)
  with tr have "\<exists>trace\<in>set (transfer_trace_numbers db).
                 trace_row.transfer_id trace = TransferID t \<and> trace_number trace = traceNumber"
    by blast
  moreover have "Value (Transfer.Amount t) = Value amount" "Transfer.Status t = PROCESSED"
    "dayOf eed - 5 \<le> dayOf (Created t)" "dayOf (Created t) \<le> dayOf eed + 5"
    using t w by (simp_all add: scanTransfer_def)
  ultimately show ?thesis using xf t w(4) by blast
qed

theorem LookupTransferFromReturn_sound_witness:
  "distinct (map transfer_row.transfer_id (transfers exampleDB))
   \<and> LookupTransferFromReturn exampleReturnCodes exampleDB \<lparr>Currency = ''USD'', Value = 1234\<rparr>
        ''T123'' (18738 * 86400)
       = Inr (Some (scanTransfer exampleReturnCodes exampleDB ''t1''
                      (exampleRow ''t1'' 1234 ''PROCESSED'' None)))
   \<and> Transfer.Status (scanTransfer exampleReturnCodes exampleDB ''t1''
                      (exampleRow ''t1'' 1234 ''PROCESSED'' None)) = PROCESSED
   \<and> dayOf (Created (scanTransfer exampleReturnCodes exampleDB ''t1''
                      (exampleRow ''t1'' 1234 ''PROCESSED'' None))) \<le> dayOf (18738 * 86400) + 5"
proof -
  have ret: "LookupTransferFromReturn exampleReturnCodes exampleDB \<lparr>Currency = ''USD'', Value = 1234\<rparr>
        ''T123'' (18738 * 86400)
       = Inr (Some (scanTransfer exampleReturnCodes exampleDB ''t1''
                      (exampleRow ''t1'' 1234 ''PROCESSED'' None)))"
    by (simp add: LookupTransferFromReturn_def startOfDayAndTomorrow_def getUserTransfer_def
        exampleDB_def exampleRow_def PROCESSED_def)
  from LookupTransferFromReturn_sound [OF exampleDB_pk ret]
  have "Transfer.Status (scanTransfer exampleReturnCodes exampleDB ''t1''
                      (exampleRow ''t1'' 1234 ''PROCESSED'' None)) = PROCESSED
   \<and> dayOf (Created (scanTransfer exampleReturnCodes exampleDB ''t1''
                      (exampleRow ''t1'' 1234 ''PROCESSED'' None))) \<le> dayOf (18738 * 86400) + 5"
    by blast
  with exampleDB_pk ret show ?thesis by (intro conjI) blast+
qed

subsection \<open>Deleting a transfer\<close>



subsection \<open>Recording a return code\<close>

lemma SaveReturnCode_fst: "fst (SaveReturnCode db transferID returnCode) = None"
  by (simp add: SaveReturnCode_def Let_def)

lemma SaveReturnCode_transfers:
  "transfers (snd (SaveReturnCode db transferID returnCode)) =
     map (\<lambda>row. if transfer_row.transfer_id row = transferID
                     \<and> return_code row = None \<and> deleted_at row = None
                 then row\<lparr>return_code := Some returnCode\<rparr> else row) (transfers db)"
  by (simp add: SaveReturnCode_def Let_def)

lemma SaveReturnCode_twice:
  "snd (SaveReturnCode (snd (SaveReturnCode db transferID returnCode)) transferID returnCode')
     = snd (SaveReturnCode db transferID returnCode)"
  by (simp add: SaveReturnCode_def Let_def comp_def)

text \<open>
  C4. \<^verbatim>\<open>SaveReturnCode\<close> returns no error, whether or not a row is updated. A row whose
  return code is set is left as it is; a row that changes had no return code and changes
  in nothing but the return code. A second call for the same transfer changes nothing.
\<close>

theorem SaveReturnCode_never_overwrites:
  "fst (SaveReturnCode db transferID returnCode) = None
   \<and> length (transfers (snd (SaveReturnCode db transferID returnCode))) = length (transfers db)
   \<and> (\<forall>i < length (transfers db).
        (return_code (transfers db ! i) \<noteq> None \<longrightarrow>
           transfers (snd (SaveReturnCode db transferID returnCode)) ! i = transfers db ! i)
      \<and> (transfers (snd (SaveReturnCode db transferID returnCode)) ! i \<noteq> transfers db ! i \<longrightarrow>
           return_code (transfers db ! i) = None
         \<and> transfers (snd (SaveReturnCode db transferID returnCode)) ! i
             = (transfers db ! i)\<lparr>return_code := Some returnCode\<rparr>))
   \<and> snd (SaveReturnCode (snd (SaveReturnCode db transferID returnCode)) transferID returnCode')
       = snd (SaveReturnCode db transferID returnCode)"
proof (intro conjI allI impI)
  show "fst (SaveReturnCode db transferID returnCode) = None"
    by (rule SaveReturnCode_fst)
  show "length (transfers (snd (SaveReturnCode db transferID returnCode))) = length (transfers db)"
    by (simp only: SaveReturnCode_transfers length_map)
  show "snd (SaveReturnCode (snd (SaveReturnCode db transferID returnCode)) transferID returnCode')
       = snd (SaveReturnCode db transferID returnCode)"
    by (rule SaveReturnCode_twice)
next
  fix i assume i: "i < length (transfers db)" and nn: "return_code (transfers db ! i) \<noteq> None"
  then show "transfers (snd (SaveReturnCode db transferID returnCode)) ! i = transfers db ! i"
    by (simp only: SaveReturnCode_transfers nth_map if_False simp_thms)
next
  fix i assume i: "i < length (transfers db)"
    and ch: "transfers (snd (SaveReturnCode db transferID returnCode)) ! i \<noteq> transfers db ! i"
  let ?c = "transfer_row.transfer_id (transfers db ! i) = transferID
             \<and> return_code (transfers db ! i) = None \<and> deleted_at (transfers db ! i) = None"
  have c: ?c
  proof (rule ccontr)
    assume "\<not> ?c"
    with i have "transfers (snd (SaveReturnCode db transferID returnCode)) ! i = transfers db ! i"
      by (simp only: SaveReturnCode_transfers nth_map if_False)
    with ch show False by simp
  qed
  then show "return_code (transfers db ! i) = None" by simp
  from c i show "transfers (snd (SaveReturnCode db transferID returnCode)) ! i
             = (transfers db ! i)\<lparr>return_code := Some returnCode\<rparr>"
    by (simp only: SaveReturnCode_transfers nth_map if_True simp_thms)
qed

theorem SaveReturnCode_never_overwrites_witness:
  "return_code (transfers (snd (SaveReturnCode exampleDB ''t1'' ''R01'')) ! 0) = Some ''R01''
   \<and> return_code
        (transfers (snd (SaveReturnCode (snd (SaveReturnCode exampleDB ''t1'' ''R01'')) ''t1'' ''R02'')) ! 0)
       = Some ''R01''
   \<and> fst (SaveReturnCode (snd (SaveReturnCode exampleDB ''t1'' ''R01'')) ''t1'' ''R02'') = None"
proof -
  let ?db1 = "snd (SaveReturnCode exampleDB ''t1'' ''R01'')"
  have a: "return_code (transfers ?db1 ! 0) = Some ''R01''"
    by (simp add: SaveReturnCode_transfers exampleDB_def exampleRow_def)
  have l: "0 < length (transfers ?db1)"
    by (simp add: SaveReturnCode_transfers exampleDB_def)
  from a have nn: "return_code (transfers ?db1 ! 0) \<noteq> None" by simp
  from SaveReturnCode_never_overwrites [of ?db1 "''t1''" "''R02''" "''R02''"] l nn
  have "transfers (snd (SaveReturnCode ?db1 ''t1'' ''R02'')) ! 0 = transfers ?db1 ! 0"
    and "fst (SaveReturnCode ?db1 ''t1'' ''R02'') = None"
    by blast+
  with a show ?thesis by simp
qed

subsection \<open>Soft-deleted transfers\<close>

text \<open>
  C10. Let a row of \<open>transfers\<close> be soft-deleted, with \<open>transfer_id\<close> the primary key.
  \<^verbatim>\<open>getUserTransfer\<close> and \<^verbatim>\<open>GetTransfer\<close> on its identifier find no row;
  \<^verbatim>\<open>LookupTransferFromReturn\<close> and \<^verbatim>\<open>getTransfers\<close> never return a transfer with its
  identifier; \<^verbatim>\<open>UpdateTransferStatus\<close> and \<^verbatim>\<open>SaveReturnCode\<close> leave the row as it is; and
  \<^verbatim>\<open>deleteUserTransfer\<close> on its identifier, or on an identifier no row has, returns no
  error and leaves the database unchanged.
\<close>

theorem soft_deleted_invisible:
  assumes pk: "distinct (map transfer_row.transfer_id (transfers db))"
    and mem: "row \<in> set (transfers db)" and del: "deleted_at row \<noteq> None"
  shows "getUserTransfer L db (transfer_row.transfer_id row) orgID = Inl ErrNoRows
       \<and> GetTransfer L db (transfer_row.transfer_id row) = Inl ErrNoRows
       \<and> (\<forall>t. LookupTransferFromReturn L db amount traceNumber eed = Inr (Some t) \<longrightarrow>
               TransferID t \<noteq> transfer_row.transfer_id row)
       \<and> (\<forall>ts. getTransfers L db orgID params = Inr ts \<longrightarrow>
               (\<forall>t\<in>set ts. TransferID t \<noteq> transfer_row.transfer_id row))
       \<and> (\<forall>i < length (transfers db). transfers db ! i = row \<longrightarrow>
               transfers (snd (UpdateTransferStatus db transferID newStatus)) ! i = row
             \<and> transfers (snd (SaveReturnCode db transferID returnCode)) ! i = row)
       \<and> deleteUserTransfer now db orgID (transfer_row.transfer_id row) = (None, db)
       \<and> (transferID \<notin> transfer_row.transfer_id ` set (transfers db) \<longrightarrow>
               deleteUserTransfer now db orgID transferID = (None, db))"
proof -
  have f1: "find (\<lambda>r. transfer_row.transfer_id r = transfer_row.transfer_id row
                    \<and> organization r = orgID \<and> deleted_at r = None) (transfers db) = None"
    by (rule find_None_key [OF pk mem]) (simp_all add: del)
  have f2: "find (\<lambda>r. transfer_row.transfer_id r = transfer_row.transfer_id row
                    \<and> deleted_at r = None) (transfers db) = None"
    by (rule find_None_key [OF pk mem]) (simp_all add: del)
  have vis: "TransferID t \<noteq> transfer_row.transfer_id row"
    if "r \<in> set (transfers db)" "deleted_at r = None"
       "t = scanTransfer L db (transfer_row.transfer_id r) r" for t r
  proof
    assume "TransferID t = transfer_row.transfer_id row"
    with that(3) have "transfer_row.transfer_id r = transfer_row.transfer_id row"
      by (simp add: TransferID_scanTransfer)
    then have "r = row" by (rule distinct_key_eq [OF pk that(1) mem])
    with that(2) del show False by simp
  qed
  have c1: "getUserTransfer L db (transfer_row.transfer_id row) orgID = Inl ErrNoRows"
    using f1 by (simp add: getUserTransfer_def)
  have c2: "GetTransfer L db (transfer_row.transfer_id row) = Inl ErrNoRows"
    using f2 by (simp add: GetTransfer_def)
  have c3: "\<forall>t. LookupTransferFromReturn L db amount traceNumber eed = Inr (Some t) \<longrightarrow>
               TransferID t \<noteq> transfer_row.transfer_id row"
  proof (intro allI impI)
    fix t assume "LookupTransferFromReturn L db amount traceNumber eed = Inr (Some t)"
    from LookupTransferFromReturn_Some [OF this]
    obtain xf :: transfer_row where
      "getUserTransfer L db (transfer_row.transfer_id xf) (organization xf) = Inr (Some t)"
      by blast
    from getUserTransfer_Some [OF this]
    obtain r where "r \<in> set (transfers db)" "deleted_at r = None"
      "t = scanTransfer L db (transfer_row.transfer_id r) r" by auto
    then show "TransferID t \<noteq> transfer_row.transfer_id row" by (rule vis)
  qed
  have c4: "\<forall>ts. getTransfers L db orgID params = Inr ts \<longrightarrow>
               (\<forall>t\<in>set ts. TransferID t \<noteq> transfer_row.transfer_id row)"
  proof (intro allI impI ballI)
    fix ts t assume "getTransfers L db orgID params = Inr ts" "t \<in> set ts"
    from getTransfers_Some [OF this]
    obtain r where "r \<in> set (transfers db)" "deleted_at r = None"
      "t = scanTransfer L db (transfer_row.transfer_id r) r" by blast
    then show "TransferID t \<noteq> transfer_row.transfer_id row" by (rule vis)
  qed
  have c5: "\<forall>i < length (transfers db). transfers db ! i = row \<longrightarrow>
               transfers (snd (UpdateTransferStatus db transferID newStatus)) ! i = row
             \<and> transfers (snd (SaveReturnCode db transferID returnCode)) ! i = row"
    using del by (auto simp add: UpdateTransferStatus_def SaveReturnCode_def Let_def)
  have c6: "deleteUserTransfer now db orgID (transfer_row.transfer_id row) = (None, db)"
    using f1 by (simp add: deleteUserTransfer_def)
  have c7: "transferID \<notin> transfer_row.transfer_id ` set (transfers db) \<longrightarrow>
               deleteUserTransfer now db orgID transferID = (None, db)"
  proof
    assume n: "transferID \<notin> transfer_row.transfer_id ` set (transfers db)"
    have "find (\<lambda>r. transfer_row.transfer_id r = transferID
                    \<and> organization r = orgID \<and> deleted_at r = None) (transfers db) = None"
      using n by (auto simp add: find_None_iff)
    then show "deleteUserTransfer now db orgID transferID = (None, db)"
      by (simp add: deleteUserTransfer_def)
  qed
  from c1 c2 c3 c4 c5 c6 c7 show ?thesis by (intro conjI)
qed

theorem soft_deleted_invisible_witness:
  "getUserTransfer exampleReturnCodes exampleDB ''t3'' ''org1'' = Inl ErrNoRows
   \<and> GetTransfer exampleReturnCodes exampleDB ''t3'' = Inl ErrNoRows
   \<and> LookupTransferFromReturn exampleReturnCodes exampleDB \<lparr>Currency = ''USD'', Value = 25\<rparr>
        ''T999'' (18736 * 86400) = Inl ErrNoRows
   \<and> getTransfers exampleReturnCodes exampleDB ''org1'' exampleParams
       = Inr [scanTransfer exampleReturnCodes exampleDB ''t1'' (exampleRow ''t1'' 1234 ''PROCESSED'' None),
              scanTransfer exampleReturnCodes exampleDB ''t2'' (exampleRow ''t2'' 153 ''PENDING'' None)]
   \<and> transfers (snd (UpdateTransferStatus exampleDB ''t3'' ''CANCELED'')) ! 2
       = exampleRow ''t3'' 25 ''PENDING'' (Some (18736 * 86400 + 11 * 3600))
   \<and> transfers (snd (SaveReturnCode exampleDB ''t3'' ''R01'')) ! 2
       = exampleRow ''t3'' 25 ''PENDING'' (Some (18736 * 86400 + 11 * 3600))
   \<and> deleteUserTransfer 99 exampleDB ''org1'' ''t3'' = (None, exampleDB)
   \<and> deleteUserTransfer 99 exampleDB ''org1'' ''t4'' = (None, exampleDB)"
proof -
  let ?r = "exampleRow ''t3'' 25 ''PENDING'' (Some (18736 * 86400 + 11 * 3600))"
  have m: "?r \<in> set (transfers exampleDB)"
    by (simp add: exampleDB_def)
  have d: "deleted_at ?r \<noteq> None"
    by (simp add: exampleRow_def)
  have l: "LookupTransferFromReturn exampleReturnCodes exampleDB \<lparr>Currency = ''USD'', Value = 25\<rparr>
        ''T999'' (18736 * 86400) = Inl ErrNoRows"
    by (simp add: LookupTransferFromReturn_def startOfDayAndTomorrow_def
        exampleDB_def exampleRow_def PROCESSED_def)
  have g: "getTransfers exampleReturnCodes exampleDB ''org1'' exampleParams
       = Inr [scanTransfer exampleReturnCodes exampleDB ''t1'' (exampleRow ''t1'' 1234 ''PROCESSED'' None),
              scanTransfer exampleReturnCodes exampleDB ''t2'' (exampleRow ''t2'' 153 ''PENDING'' None)]"
    by (simp add: getTransfers_def selectTransferIDs_def getUserTransfer_def exampleParams_def
        exampleDB_def exampleRow_def TransferID_scanTransfer)
  have i: "transfers exampleDB ! 2 = ?r" "2 < length (transfers exampleDB)"
    by (simp_all add: exampleDB_def)
  have n: "''t4'' \<notin> transfer_row.transfer_id ` set (transfers exampleDB)"
    by (simp add: exampleDB_def exampleRow_def)
  have k: "transfer_row.transfer_id ?r = ''t3''"
    by (simp add: exampleRow_def)
  note th = soft_deleted_invisible [OF exampleDB_pk m d, where L = exampleReturnCodes
        and orgID = "''org1''" and now = 99 and newStatus = "''CANCELED''" and returnCode = "''R01''"]
  from th [where transferID = "''t3''"] i
  have "getUserTransfer exampleReturnCodes exampleDB ''t3'' ''org1'' = Inl ErrNoRows"
    "GetTransfer exampleReturnCodes exampleDB ''t3'' = Inl ErrNoRows"
    "transfers (snd (UpdateTransferStatus exampleDB ''t3'' ''CANCELED'')) ! 2 = ?r"
    "transfers (snd (SaveReturnCode exampleDB ''t3'' ''R01'')) ! 2 = ?r"
    "deleteUserTransfer 99 exampleDB ''org1'' ''t3'' = (None, exampleDB)"
    unfolding k by blast+
  moreover from th [where transferID = "''t4''"] n
  have "deleteUserTransfer 99 exampleDB ''org1'' ''t4'' = (None, exampleDB)"
    by blast
  ultimately show ?thesis using l g by (intro conjI)
qed


section \<open>Properties of the file builder\<close>

lemma digit_chars:
  "digit 0 = CHR ''0''" "digit 1 = CHR ''1''" "digit 2 = CHR ''2''" "digit 3 = CHR ''3''"
  "digit 4 = CHR ''4''" "digit 5 = CHR ''5''" "digit 6 = CHR ''6''" "digit 7 = CHR ''7''"
  "digit 8 = CHR ''8''" "digit 9 = CHR ''9''" "digit (Suc 0) = CHR ''1''"
  by code_simp+

lemma ConstructFile_entries:
  assumes "ConstructFile Validate offsetAccount transferID opts xfer source destination = Inr file"
  shows "length (fileEntries file) = (if BalanceEntries (Options.FileConfig opts) then 2 else 1)"
  using assms
  by (auto simp add: ConstructFile_def Let_def fileEntries_def split: option.splits if_splits)

lemma originateOptions_BalanceEntries:
  "BalanceEntries (Options.FileConfig (originateOptions AddBankingDay tm fp companyID x))
     \<longleftrightarrow> BalanceEntries (ODFI.FileConfig (cfg fp)) \<and> Value (Transfer.Amount x) \<ge> 50"
  by (simp add: originateOptions_def Let_def)

lemma Originate_Inr:
  assumes "Originate constructFile AddBankingDay tm fp companyID xfer src dst = Inr files"
  shows "\<exists>x file. xfer = Some x \<and> files = [file]
           \<and> constructFile (TransferID x) (originateOptions AddBankingDay tm fp companyID x) x src dst
               = Inr file"
  using assms
  by (auto simp add: Originate_def split: if_splits option.splits sum.splits)

text \<open>
  C7. The options that \<^verbatim>\<open>Originate\<close> hands to the file builder have balance entries
  enabled exactly when the \<open>balanceEntries\<close> flag of the configuration is set and the amount
  of the transfer is at least 50. With the builder of the spec, every file that
  \<^verbatim>\<open>Originate\<close> returns is a single file with two entries and two trace numbers when
  that condition holds, and with one entry and one trace number otherwise; for an amount
  of 25 it has one entry and one trace number.
\<close>

theorem Originate_balance_entries:
  "(BalanceEntries (Options.FileConfig (originateOptions AddBankingDay tm fp companyID x))
      \<longleftrightarrow> BalanceEntries (ODFI.FileConfig (cfg fp)) \<and> Value (Transfer.Amount x) \<ge> 50)
   \<and> (Originate (ConstructFile Validate offsetAccount) AddBankingDay tm fp companyID (Some x) src dst
         = Inr files \<longrightarrow>
        (\<exists>file. files = [file]
           \<and> length (fileEntries file)
               = (if BalanceEntries (ODFI.FileConfig (cfg fp)) \<and> Value (Transfer.Amount x) \<ge> 50
                  then 2 else 1)
           \<and> length (fileTraceNumbers file) = length (fileEntries file)
           \<and> (Value (Transfer.Amount x) = 25 \<longrightarrow>
                 length (fileEntries file) = 1 \<and> length (fileTraceNumbers file) = 1)))"
proof (intro conjI impI)
  show "BalanceEntries (Options.FileConfig (originateOptions AddBankingDay tm fp companyID x))
      \<longleftrightarrow> BalanceEntries (ODFI.FileConfig (cfg fp)) \<and> Value (Transfer.Amount x) \<ge> 50"
    by (rule originateOptions_BalanceEntries)
next
  assume "Originate (ConstructFile Validate offsetAccount) AddBankingDay tm fp companyID (Some x) src dst
         = Inr files"
  from Originate_Inr [OF this]
  obtain f0 where f: "files = [f0]"
    and c: "ConstructFile Validate offsetAccount (TransferID x)
              (originateOptions AddBankingDay tm fp companyID x) x src dst = Inr f0"
    by auto
  have n: "length (fileEntries f0)
               = (if BalanceEntries (ODFI.FileConfig (cfg fp)) \<and> Value (Transfer.Amount x) \<ge> 50
                  then 2 else 1)"
    using ConstructFile_entries [OF c] by (simp only: originateOptions_BalanceEntries)
  have t: "length (fileTraceNumbers f0) = length (fileEntries f0)"
    by (simp add: fileTraceNumbers_def)
  from f n t show "\<exists>file. files = [file]
           \<and> length (fileEntries file)
               = (if BalanceEntries (ODFI.FileConfig (cfg fp)) \<and> Value (Transfer.Amount x) \<ge> 50
                  then 2 else 1)
           \<and> length (fileTraceNumbers file) = length (fileEntries file)
           \<and> (Value (Transfer.Amount x) = 25 \<longrightarrow>
                 length (fileEntries file) = 1 \<and> length (fileTraceNumbers file) = 1)"
    by auto
qed

text \<open>The witness is the spec's second scenario, and the first beside it.\<close>

theorem Originate_balance_entries_witness:
  "Originate scenarioBuilder everyDayBanking 0 \<lparr>cfg = scenarioODFI\<rparr> ''MOOV''
      (Some (testTransfer 25)) (endpointSource ''VERIFIED'' ''221475786'')
      (endpointDestination ''071000301'')
     = Inr [\<lparr>Batches = [\<lparr>Entries =
              [\<lparr>RDFIIdentification = ''071000301'', DFIAccountNumber = ''654321'',
                EntryDetail.Amount = 25, TraceNumber = ''221475780000001''\<rparr>]\<rparr>]\<rparr>]
   \<and> length (fileTraceNumbers \<lparr>Batches = [\<lparr>Entries =
              [\<lparr>RDFIIdentification = ''071000301'', DFIAccountNumber = ''654321'',
                EntryDetail.Amount = 25, TraceNumber = ''221475780000001''\<rparr>]\<rparr>]\<rparr>) = 1
   \<and> Originate scenarioBuilder everyDayBanking 0 \<lparr>cfg = scenarioODFI\<rparr> ''MOOV''
      (Some (testTransfer 153)) (endpointSource ''VERIFIED'' ''221475786'')
      (endpointDestination ''071000301'')
     = Inr [\<lparr>Batches = [\<lparr>Entries =
              [\<lparr>RDFIIdentification = ''071000301'', DFIAccountNumber = ''654321'',
                EntryDetail.Amount = 153, TraceNumber = ''221475780000001''\<rparr>,
               \<lparr>RDFIIdentification = ''221475786'', DFIAccountNumber = ''offset'',
                EntryDetail.Amount = 153, TraceNumber = ''221475780000002''\<rparr>]\<rparr>]\<rparr>]"
proof -
  let ?f = "\<lparr>Batches = [\<lparr>Entries =
              [\<lparr>RDFIIdentification = ''071000301'', DFIAccountNumber = ''654321'',
                EntryDetail.Amount = 25, TraceNumber = ''221475780000001''\<rparr>]\<rparr>]\<rparr>"
  have a: "Originate (ConstructFile (\<lambda>file. None) ''offset'') everyDayBanking 0
      \<lparr>cfg = scenarioODFI\<rparr> ''MOOV''
      (Some (testTransfer 25)) (endpointSource ''VERIFIED'' ''221475786'')
      (endpointDestination ''071000301'') = Inr [?f]"
    by (simp add: Originate_def ConstructFile_def originateOptions_def scenarioODFI_def
        emptyODFI_def endpointSource_def endpointDestination_def testTransfer_def
        EqualFold_def CUSTOMERSTATUS_VERIFIED_def entryTraceNumber_def digit_chars)
  have b: "Originate scenarioBuilder everyDayBanking 0 \<lparr>cfg = scenarioODFI\<rparr> ''MOOV''
      (Some (testTransfer 153)) (endpointSource ''VERIFIED'' ''221475786'')
      (endpointDestination ''071000301'')
     = Inr [\<lparr>Batches = [\<lparr>Entries =
              [\<lparr>RDFIIdentification = ''071000301'', DFIAccountNumber = ''654321'',
                EntryDetail.Amount = 153, TraceNumber = ''221475780000001''\<rparr>,
               \<lparr>RDFIIdentification = ''221475786'', DFIAccountNumber = ''offset'',
                EntryDetail.Amount = 153, TraceNumber = ''221475780000002''\<rparr>]\<rparr>]\<rparr>]"
    by (simp add: scenarioBuilder_def Originate_def ConstructFile_def originateOptions_def
        scenarioODFI_def emptyODFI_def endpointSource_def endpointDestination_def
        testTransfer_def EqualFold_def CUSTOMERSTATUS_VERIFIED_def entryTraceNumber_def
        digit_chars)
  have v: "Value (Transfer.Amount (testTransfer 25)) = 25"
    by (simp add: testTransfer_def)
  from Originate_balance_entries [where Validate = "\<lambda>file. None" and offsetAccount = "''offset''"
      and AddBankingDay = everyDayBanking and tm = 0 and fp = "\<lparr>cfg = scenarioODFI\<rparr>"
      and companyID = "''MOOV''" and x = "testTransfer 25"
      and src = "endpointSource ''VERIFIED'' ''221475786''"
      and dst = "endpointDestination ''071000301''" and files = "[?f]"] a v
  have "length (fileTraceNumbers ?f) = 1"
    by blast
  with a b show ?thesis by (simp only: scenarioBuilder_def simp_thms)
qed


section \<open>Properties of the file names\<close>

lemma removeSuffixes_plain:
  "CHR ''.'' \<notin> set s \<Longrightarrow> removeSuffixes (s @ t) = s @ removeSuffixes t"
  by (induction s) auto

lemma removeSuffixes_ach: "removeSuffixes (''.ach'' @ (if gpg then ''.gpg'' else '''')) = []"
  by simp

lemma splitAt_plain: "sep \<notin> set s \<Longrightarrow> splitAt sep s = [s]"
  by (induction s) auto

lemma splitAt_append: "sep \<notin> set s \<Longrightarrow> splitAt sep (s @ sep # t) = s # splitAt sep t"
  by (induction s) auto

lemma sequenceOfPart_long: "length s \<noteq> 1 \<Longrightarrow> sequenceOfPart s = None"
  by (cases s rule: list.exhaust; simp add: sequenceOfPart_def split: list.splits)

lemma RoundSequenceNumber_table:
  "list_all (\<lambda>n. RoundSequenceNumber n = [''0123456789ABCDEFGHIJKLMNOPQRSTUVWXYZ'' ! n]
                \<and> sequenceOfPart (RoundSequenceNumber n) = Some n
                \<and> CHR ''.'' \<notin> set (RoundSequenceNumber n)
                \<and> CHR ''-'' \<notin> set (RoundSequenceNumber n)) [0..<36]"
  by code_simp

lemma RoundSequenceNumber_facts:
  assumes "n \<le> 35"
  shows "RoundSequenceNumber n = [''0123456789ABCDEFGHIJKLMNOPQRSTUVWXYZ'' ! n]"
    and "sequenceOfPart (RoundSequenceNumber n) = Some n"
    and "CHR ''.'' \<notin> set (RoundSequenceNumber n)"
    and "CHR ''-'' \<notin> set (RoundSequenceNumber n)"
proof -
  have "n \<in> set [0..<36]" using assms by simp
  with RoundSequenceNumber_table
  have "RoundSequenceNumber n = [''0123456789ABCDEFGHIJKLMNOPQRSTUVWXYZ'' ! n]
                \<and> sequenceOfPart (RoundSequenceNumber n) = Some n
                \<and> CHR ''.'' \<notin> set (RoundSequenceNumber n)
                \<and> CHR ''-'' \<notin> set (RoundSequenceNumber n)"
    unfolding list_all_iff by blast
  then show "RoundSequenceNumber n = [''0123456789ABCDEFGHIJKLMNOPQRSTUVWXYZ'' ! n]"
    and "sequenceOfPart (RoundSequenceNumber n) = Some n"
    and "CHR ''.'' \<notin> set (RoundSequenceNumber n)"
    and "CHR ''-'' \<notin> set (RoundSequenceNumber n)"
    by blast+
qed

text \<open>The values that the repository's test \<^verbatim>\<open>TestFilenameTemplate__ACHFilenameSeq\<close> expects.\<close>

lemma ACHFilenameSeq_tests:
  "ACHFilenameSeq '''' = 0"
  "ACHFilenameSeq ''20210102-C.ach'' = 12"
  "ACHFilenameSeq ''20060102-0830-987654320-1.ach'' = 1"
  "ACHFilenameSeq ''20060102-987654320-1.ach'' = 1"
  "ACHFilenameSeq ''20060102-987654320-2.ach.gpg'' = 2"
  "ACHFilenameSeq ''my-20060102-987654320-3.ach'' = 3"
  "ACHFilenameSeq ''20060102-B-987654320.ach'' = 11"
  by code_simp+

text \<open>
  C9. For every sequence number \<open>n\<close> from 0 to 35, \<^verbatim>\<open>ACHFilenameSeq\<close> applied to the file
  name rendered with \<open>n\<close> gives \<open>n\<close> back, whatever the date, time and routing number are
  (texts without dot or dash, of a length other than one) and with or without the suffix
  \<^verbatim>\<open>.gpg\<close>. The sequence character of \<open>n\<close> is the \<open>n\<close>-th of the digits followed by the
  capital letters; that of 0 is \<^verbatim>\<open>0\<close> and that of 10 is \<^verbatim>\<open>A\<close>.
\<close>

theorem ACHFilenameSeq_roundtrip:
  assumes "n \<le> 35" and "plainPart date" and "plainPart time" and "plainPart routingNumber"
  shows "ACHFilenameSeq (RenderACHFilename date time routingNumber n gpg) = n
       \<and> RoundSequenceNumber n = [''0123456789ABCDEFGHIJKLMNOPQRSTUVWXYZ'' ! n]
       \<and> RoundSequenceNumber 0 = ''0'' \<and> RoundSequenceNumber 10 = ''A''"
proof -
  let ?q = "RoundSequenceNumber n"
  let ?body = "date @ ''-'' @ time @ ''-'' @ routingNumber @ ''-'' @ ?q"
  have nd: "CHR ''.'' \<notin> set ?body"
    using assms(2-4) RoundSequenceNumber_facts(3) [OF assms(1)] by (simp add: plainPart_def)
  have "removeSuffixes (RenderACHFilename date time routingNumber n gpg)
          = removeSuffixes (?body @ (''.ach'' @ (if gpg then ''.gpg'' else '''')))"
    by (simp add: RenderACHFilename_def)
  also have "\<dots> = ?body @ removeSuffixes (''.ach'' @ (if gpg then ''.gpg'' else ''''))"
    using nd by (rule removeSuffixes_plain)
  also have "\<dots> = ?body"
    by (simp only: removeSuffixes_ach append_Nil2)
  finally have r: "removeSuffixes (RenderACHFilename date time routingNumber n gpg) = ?body" .
  have d: "CHR ''-'' \<notin> set date" "CHR ''-'' \<notin> set time" "CHR ''-'' \<notin> set routingNumber"
    using assms(2-4) by (simp_all add: plainPart_def)
  have "splitAt CHR ''-'' ?body = [date, time, routingNumber, ?q]"
    using d RoundSequenceNumber_facts(4) [OF assms(1)]
    by (simp add: splitAt_append splitAt_plain)
  moreover have "sequenceOfPart date = None" "sequenceOfPart time = None"
    "sequenceOfPart routingNumber = None"
    using assms(2-4) by (simp_all add: plainPart_def sequenceOfPart_long)
  ultimately have "ACHFilenameSeq (RenderACHFilename date time routingNumber n gpg) = n"
    using RoundSequenceNumber_facts(2) [OF assms(1)] by (simp add: ACHFilenameSeq_def r)
  moreover have "RoundSequenceNumber 0 = ''0''" "RoundSequenceNumber 10 = ''A''"
    using RoundSequenceNumber_facts(1) [of 0] RoundSequenceNumber_facts(1) [of 10] by simp_all
  ultimately show ?thesis
    using RoundSequenceNumber_facts(1) [OF assms(1)] by blast
qed

theorem ACHFilenameSeq_roundtrip_witness:
  "RenderACHFilename ''20210419'' ''1620'' ''221475786'' 1 False = ''20210419-1620-221475786-1.ach''
   \<and> ACHFilenameSeq ''20210419-1620-221475786-1.ach'' = 1
   \<and> RenderACHFilename ''20210419'' ''1620'' ''221475786'' 35 True
       = ''20210419-1620-221475786-Z.ach.gpg''
   \<and> ACHFilenameSeq ''20210419-1620-221475786-Z.ach.gpg'' = 35"
proof -
  have p: "plainPart ''20210419''" "plainPart ''1620''" "plainPart ''221475786''"
    by (simp_all add: plainPart_def)
  have n: "(1::nat) \<le> 35" "(35::nat) \<le> 35" by simp_all
  note a = ACHFilenameSeq_roundtrip [OF n(1) p, of False]
    and b = ACHFilenameSeq_roundtrip [OF n(2) p, of True]
  have ra: "RenderACHFilename ''20210419'' ''1620'' ''221475786'' 1 False
      = ''20210419-1620-221475786-1.ach''"
    using a by (simp add: RenderACHFilename_def)
  have rb: "RenderACHFilename ''20210419'' ''1620'' ''221475786'' 35 True
      = ''20210419-1620-221475786-Z.ach.gpg''"
    using b by (simp add: RenderACHFilename_def)
  from a b show ?thesis unfolding ra rb using ra rb by blast
qed

end
